theory Spec2Isabelle
  imports Main
begin

section \<open>Data model of the Mediachain node\<close>

text \<open>
  The node (class \<open>MediachainNode\<close>) is embedded shallowly. Promises become values of
  \<open>error + 'a\<close> (\<open>Inl\<close> a rejection, \<open>Inr\<close> the resolved value), paired with the list
  of effects the call performed on the transport, in the order the code performs them.
  Everything the node reaches through \<open>require\<close> (the transport \<open>P2PNode\<close>, the
  \<open>multihashes\<close> library, the helpers of \<open>./util\<close> and \<open>./identity\<close>) is outside
  the modelled file and is a field of the environment record \<open>env\<close>.
\<close>

datatype peer_id = PeerId (toB58String: string)

datatype peer_info = PeerInfo (info_id: peer_id) (multiaddrs: "string list")

text \<open>The argument of \<open>lookup\<close>: \<open>string | PeerId\<close>.\<close>

datatype lookup_arg = ArgString string | ArgPeerId peer_id

text \<open>The argument of \<open>_lookupIfNeeded\<close> and \<open>openConnection\<close>: \<open>PeerInfo | PeerId | string\<close>.\<close>

datatype peer_ref = RefPeerInfo peer_info | RefPeerId peer_id | RefString string

text \<open>The protocol ids \<open>PROTOCOLS.node.*\<close> and \<open>PROTOCOLS.dir.*\<close> the node dials.\<close>

datatype protocol = NodePing | NodeId | NodeQuery | NodeData | DirRegister | DirLookup

type_synonym conn = nat

text \<open>
  One constructor for each \<open>new Error(...)\<close> of the node, in the order of the code:
  "No known directory server, cannot register", "No known directory server, cannot
  lookup", "Peer id is not a valid multihash: ..." and "Peer id is not a valid
  multiaddr: ..." with the message of the error caught, "Unable to locate peer ..." with
  the reference; and \<open>TransportError\<close> for a failure that comes from the transport or
  from a decoded stream.
\<close>

datatype error =
    NoDirectoryRegister
  | NoDirectoryLookup
  | InvalidMultihash string
  | InvalidMultiaddr string
  | UnableToLocate peer_ref
  | TransportError string

text \<open>
  A pull-stream source read to its end: the items it delivers, then a normal end
  (\<open>None\<close>) or an error.
\<close>

datatype 'a source = Source (items: "'a list") (terminal: "error option")

text \<open>
  Modelled from the spec: the response of the directory to a lookup request, and
  \<open>lookupResponseToPeerInfo\<close> of \<open>./util\<close>, which is not among the sources. The directory
  answers with "single {peer address info or absent}", and the response is translated
  "into a PeerAddressInfo (which may be absent/null, signaling the directory has no
  record)".
\<close>

datatype lookup_peer_response = LookupPeerResponse (peer: "peer_info option")

definition lookupResponseToPeerInfo :: "lookup_peer_response \<Rightarrow> peer_info option" where
  "lookupResponseToPeerInfo resp = (case peer resp of None \<Rightarrow> None | Some p \<Rightarrow> Some p)"

text \<open>
  A decoded \<open>QueryResult\<close> message; the code reads its field \<open>value\<close> only, which may be
  null. A decoded \<open>DataResult\<close> message with its field \<open>data\<close>.
\<close>

datatype 'v query_result_msg = QueryResultMsg (msg_value: "'v option")

datatype 'd data_result_msg = DataResultMsg (data: 'd)

text \<open>
  The environment of a node. \<open>fromB58String\<close> is \<open>Multihash.fromB58String\<close> (\<open>Inl\<close> the
  message of the error it throws), \<open>inflateMultiaddr\<close> the helper of \<open>./identity\<close>,
  \<open>dialByPeerInfo\<close> the method of the transport. \<open>lookupExchange conn id\<close> is the outcome
  of the one-shot exchange on a lookup connection (the request \<open>{id}\<close> encoded, the one
  response decoded, or the failure of the stream); \<open>queryExchange\<close> and \<open>dataExchange\<close>
  are the result streams that the encode, connection, decode, \<open>resultStreamThrough\<close>
  pipelines deliver for a query string and for a list of keys.
\<close>

record ('v, 'd, 'm) env =
  fromB58String :: "string \<Rightarrow> string + nat list"
  inflateMultiaddr :: "string \<Rightarrow> string + peer_info"
  peerInfoProtoMarshal :: "peer_info \<Rightarrow> 'm"
  objectIdsForQueryResult :: "'v \<Rightarrow> string list"
  expandQueryResult :: "'v \<Rightarrow> 'd list \<Rightarrow> 'v"
  dialByPeerInfo :: "peer_info \<Rightarrow> protocol \<Rightarrow> string + conn"
  lookupExchange :: "conn \<Rightarrow> string \<Rightarrow> string + lookup_peer_response"
  queryExchange :: "conn \<Rightarrow> string \<Rightarrow> 'v query_result_msg source"
  dataExchange :: "conn \<Rightarrow> string list \<Rightarrow> 'd data_result_msg source"

text \<open>
  The fields of the transport object \<open>this.p2p\<close> that the node reads: its own peer info
  and the peer book, where \<open>getByB58String\<close> throws for an id without entry.
\<close>

record p2p_node =
  peerInfo :: peer_info
  peerBook :: "string \<rightharpoonup> peer_info"

record node =
  p2p :: p2p_node
  directory :: "peer_info option"
  infoMessage :: string

text \<open>
  The stages of the pipeline that \<open>register\<close> starts with \<open>pull(...)\<close>, and the effects
  of a call on the transport.
\<close>

datatype schema = RegisterPeer

datatype 'm register_request = RegisterRequest (info: 'm)

datatype 'm stage =
    PullRepeatedly "'m register_request" nat
  | Abortable
  | ProtoStreamEncode schema
  | Duplex conn
  | OnEnd string

datatype 'm event =
    NewAbortable
  | PeerBookGet string
  | Dial peer_info protocol
  | Pull "'m stage list"

type_synonym ('a, 'm) promise = "(error + 'a) \<times> 'm event list"

section \<open>Directory client\<close>

definition lookup ::
  "('v, 'd, 'm) env \<Rightarrow> node \<Rightarrow> lookup_arg \<Rightarrow> (peer_info option, 'm) promise" where
  "lookup e n peerId =
    (case (case peerId of
             ArgPeerId p \<Rightarrow> Inr (toB58String p)
           | ArgString s \<Rightarrow>
               (case fromB58String e s of
                  Inl m \<Rightarrow> Inl (InvalidMultihash m)
                | Inr _ \<Rightarrow> Inr s)) of
       Inl err \<Rightarrow> (Inl err, [])
     | Inr b58 \<Rightarrow>
        (case peerBook (p2p n) b58 of
           Some found \<Rightarrow> (Inr (Some found), [PeerBookGet b58])
         | None \<Rightarrow>
            (case directory n of
               None \<Rightarrow> (Inl NoDirectoryLookup, [PeerBookGet b58])
             | Some dir \<Rightarrow>
                (case dialByPeerInfo e dir DirLookup of
                   Inl m \<Rightarrow>
                     (Inl (TransportError m), [PeerBookGet b58, Dial dir DirLookup])
                 | Inr c \<Rightarrow>
                    (case lookupExchange e c b58 of
                       Inl m \<Rightarrow>
                         (Inl (TransportError m), [PeerBookGet b58, Dial dir DirLookup])
                     | Inr resp \<Rightarrow>
                         (Inr (lookupResponseToPeerInfo resp),
                          [PeerBookGet b58, Dial dir DirLookup]))))))"

text \<open>
  \<open>register\<close>. The abortable is created before the dial; after the dial the pipeline is
  started with \<open>pull(...)\<close> and the promise resolves to \<open>true\<close> at once. The interval
  is written \<open>5000 * 60\<close> (milliseconds) in the code.
\<close>

definition register :: "('v, 'd, 'm) env \<Rightarrow> node \<Rightarrow> (bool, 'm) promise" where
  "register e n =
    (case directory n of
       None \<Rightarrow> (Inl NoDirectoryRegister, [])
     | Some dir \<Rightarrow>
        (let req = RegisterRequest (peerInfoProtoMarshal e (peerInfo (p2p n))) in
         case dialByPeerInfo e dir DirRegister of
           Inl m \<Rightarrow> (Inl (TransportError m), [NewAbortable, Dial dir DirRegister])
         | Inr c \<Rightarrow>
            (Inr True,
             [NewAbortable, Dial dir DirRegister,
              Pull [PullRepeatedly req (5000 * 60), Abortable,
                    ProtoStreamEncode RegisterPeer, Duplex c,
                    OnEnd ''registration connection ended'']])))"

text \<open>
  Modelled from the spec: \<open>pullRepeatedly\<close> of \<open>./util\<close> and the abortable stage of the
  transport, which are not among the sources. The loop "emits a registration message
  immediately and again every fixed interval ... for as long as the underlying connection
  stays open", and "aborting the loop stops further emissions". \<open>pullRepeatedly v i k\<close> is
  emission number \<open>k\<close> (from 0) with its time in milliseconds after the start of the
  pipeline; \<open>heartbeat v i aborted closed k\<close> is that emission as it reaches the
  connection, when the connection closes at time \<open>closed\<close> and the abortable is aborted
  at time \<open>aborted\<close>, if ever.
\<close>

definition pullRepeatedly :: "'a \<Rightarrow> nat \<Rightarrow> nat \<Rightarrow> nat \<times> 'a" where
  "pullRepeatedly v interval k = (k * interval, v)"

definition heartbeat :: "'a \<Rightarrow> nat \<Rightarrow> nat option \<Rightarrow> nat \<Rightarrow> nat \<Rightarrow> (nat \<times> 'a) option" where
  "heartbeat v interval aborted closed k =
    (let (t, x) = pullRepeatedly v interval k in
     if t < closed \<and> (case aborted of None \<Rightarrow> True | Some a \<Rightarrow> t < a)
     then Some (t, x) else None)"

section \<open>Peer resolution and dialing\<close>

definition startsWith :: "string \<Rightarrow> string \<Rightarrow> bool" where
  "startsWith s p = (take (length p) s = p)"

definition lookupIfNeeded ::
  "('v, 'd, 'm) env \<Rightarrow> node \<Rightarrow> peer_ref \<Rightarrow> (peer_info option, 'm) promise" where
  "lookupIfNeeded e n p =
    (case p of
       RefPeerInfo i \<Rightarrow> (Inr (Some i), [])
     | RefString s \<Rightarrow>
         (if startsWith s ''/''
          then (case inflateMultiaddr e s of
                  Inr i \<Rightarrow> (Inr (Some i), [])
                | Inl m \<Rightarrow> (Inl (InvalidMultiaddr m), []))
          else lookup e n (ArgString s))
     | RefPeerId pid \<Rightarrow> lookup e n (ArgPeerId pid))"

definition openConnection ::
  "('v, 'd, 'm) env \<Rightarrow> node \<Rightarrow> peer_ref \<Rightarrow> protocol \<Rightarrow> (conn, 'm) promise" where
  "openConnection e n p proto =
    (case lookupIfNeeded e n p of
       (Inl err, evs) \<Rightarrow> (Inl err, evs)
     | (Inr None, evs) \<Rightarrow> (Inl (UnableToLocate p), evs)
     | (Inr (Some i), evs) \<Rightarrow>
        (case dialByPeerInfo e i proto of
           Inl m \<Rightarrow> (Inl (TransportError m), evs @ [Dial i proto])
         | Inr c \<Rightarrow> (Inr c, evs @ [Dial i proto])))"

section \<open>Remote invocation\<close>

text \<open>\<open>pull.map\<close> and \<open>pull.collect\<close> on a source read to its end.\<close>

definition pull_map :: "('a \<Rightarrow> 'b) \<Rightarrow> 'a source \<Rightarrow> 'b source" where
  "pull_map f s = Source (map f (items s)) (terminal s)"

definition collect :: "'a source \<Rightarrow> error + 'a list" where
  "collect s = (case terminal s of Some err \<Rightarrow> Inl err | None \<Rightarrow> Inr (items s))"

definition remoteQueryStream ::
  "('v, 'd, 'm) env \<Rightarrow> node \<Rightarrow> peer_ref \<Rightarrow> string
    \<Rightarrow> ('v query_result_msg source, 'm) promise" where
  "remoteQueryStream e n p queryString =
    (case openConnection e n p NodeQuery of
       (Inl err, evs) \<Rightarrow> (Inl err, evs)
     | (Inr c, evs) \<Rightarrow> (Inr (queryExchange e c queryString), evs))"

definition remoteDataStream ::
  "('v, 'd, 'm) env \<Rightarrow> node \<Rightarrow> peer_ref \<Rightarrow> string list \<Rightarrow> ('d source, 'm) promise" where
  "remoteDataStream e n p keys =
    (case openConnection e n p NodeData of
       (Inl err, evs) \<Rightarrow> (Inl err, evs)
     | (Inr c, evs) \<Rightarrow> (Inr (pull_map data (dataExchange e c keys)), evs))"

definition remoteData ::
  "('v, 'd, 'm) env \<Rightarrow> node \<Rightarrow> peer_ref \<Rightarrow> string list \<Rightarrow> ('d list, 'm) promise" where
  "remoteData e n p keys =
    (case remoteDataStream e n p keys of
       (Inl err, evs) \<Rightarrow> (Inl err, evs)
     | (Inr stream, evs) \<Rightarrow> (collect stream, evs))"

section \<open>Query expansion\<close>

definition expandQueryResultData ::
  "('v, 'd, 'm) env \<Rightarrow> node \<Rightarrow> peer_ref \<Rightarrow> 'v \<Rightarrow> ('v, 'm) promise" where
  "expandQueryResultData e n p result =
    (let objectIds = objectIdsForQueryResult e result in
     if length objectIds < 1 then (Inr result, [])
     else (case remoteData e n p objectIds of
             (Inl err, evs) \<Rightarrow> (Inl err, evs)
           | (Inr dataResults, evs) \<Rightarrow> (Inr (expandQueryResult e result dataResults), evs)))"

text \<open>
  What the expansion stage hands to its callback for one element: the element itself,
  a \<open>QueryResult\<close> message, or an object made from the element's value.
\<close>

datatype 'v item = Message "'v query_result_msg" | Object 'v

text \<open>
  The function that \<open>remoteQueryWithDataStream\<close> passes to \<open>paramap\<close>, with the
  callback's arguments as the result: \<open>cb(err)\<close> is \<open>Inl err\<close>, \<open>cb(null, x)\<close> is
  \<open>Inr x\<close>.
\<close>

definition expandElement ::
  "('v, 'd, 'm) env \<Rightarrow> node \<Rightarrow> peer_ref \<Rightarrow> 'v query_result_msg \<Rightarrow> ('v item, 'm) promise" where
  "expandElement e n p queryResult =
    (case msg_value queryResult of
       None \<Rightarrow> (Inr (Message queryResult), [])
     | Some v \<Rightarrow>
        (case expandQueryResultData e n p v of
           (Inl err, evs) \<Rightarrow> (Inl err, evs)
         | (Inr result, evs) \<Rightarrow> (Inr (Object result), evs)))"

text \<open>
  \<open>paramap\<close> is the stage of the library \<open>pull-paramap\<close>, called with the mapping
  function alone. It delivers the results in the order of the input. The model is the
  stage as its consumer sees it when the callbacks complete in input order: the results
  up to the first error, then that error; the error of the input after all its items.
\<close>

fun mapUntilError :: "('a \<Rightarrow> error + 'b) \<Rightarrow> 'a list \<Rightarrow> 'b list \<times> error option" where
  "mapUntilError f [] = ([], None)"
| "mapUntilError f (x # xs) =
    (case f x of
       Inl err \<Rightarrow> ([], Some err)
     | Inr y \<Rightarrow> (case mapUntilError f xs of (ys, t) \<Rightarrow> (y # ys, t)))"

definition paramap :: "('a \<Rightarrow> error + 'b) \<Rightarrow> 'a source \<Rightarrow> 'b source" where
  "paramap f s =
    (case mapUntilError f (items s) of
       (ys, Some err) \<Rightarrow> Source ys (Some err)
     | (ys, None) \<Rightarrow> Source ys (terminal s))"

definition remoteQueryWithDataStream ::
  "('v, 'd, 'm) env \<Rightarrow> node \<Rightarrow> peer_ref \<Rightarrow> string \<Rightarrow> ('v item source, 'm) promise" where
  "remoteQueryWithDataStream e n p queryString =
    (case remoteQueryStream e n p queryString of
       (Inl err, evs) \<Rightarrow> (Inl err, evs)
     | (Inr resultStream, evs) \<Rightarrow>
         (Inr (paramap (\<lambda>queryResult. fst (expandElement e n p queryResult)) resultStream),
          evs))"

text \<open>The number of dials on a protocol among the effects of a call.\<close>

definition dials_on :: "protocol \<Rightarrow> 'm event list \<Rightarrow> nat" where
  "dials_on proto evs =
    length (filter (\<lambda>ev. case ev of Dial i q \<Rightarrow> q = proto | _ \<Rightarrow> False) evs)"

section \<open>Fixtures\<close>

text \<open>
  A concrete environment for evaluating the model: a validator that accepts the strings
  over the base-58 alphabet, an address decoder that accepts the strings with the
  prefix \<open>/ip4/\<close>, a directory that knows one peer.
\<close>

definition b58_alphabet :: string where
  "b58_alphabet = ''123456789ABCDEFGHJKLMNPQRSTUVWXYZabcdefghijkmnopqrstuvwxyz''"

definition anna :: peer_info where
  "anna = PeerInfo (PeerId ''QmAnna'') [''/ip4/10.0.0.1/tcp/9000'']"

definition dir_peer :: peer_info where
  "dir_peer = PeerInfo (PeerId ''QmDir'') [''/ip4/10.0.0.9/tcp/9000'']"

definition self_peer :: peer_info where
  "self_peer = PeerInfo (PeerId ''QmSe1f'') [''/ip4/127.0.0.1/tcp/9000'']"

definition ex_env :: "(nat, string, string) env" where
  "ex_env = \<lparr>
     fromB58String = (\<lambda>s. if list_all (\<lambda>c. c \<in> set b58_alphabet) s
                          then Inr [] else Inl ''Non-base58 character''),
     inflateMultiaddr = (\<lambda>s. if take 5 s = ''/ip4/''
                             then Inr (PeerInfo (PeerId ''QmAddr'') [s])
                             else Inl ''invalid address''),
     peerInfoProtoMarshal = (\<lambda>i. toB58String (info_id i)),
     objectIdsForQueryResult = (\<lambda>v. if v = 0 then [] else [''obj1'', ''obj2'']),
     expandQueryResult = (\<lambda>v ds. v + length ds),
     dialByPeerInfo = (\<lambda>i p. if i = dir_peer then Inr 1
                              else if i = anna then Inr 2 else Inl ''dial failed''),
     lookupExchange = (\<lambda>c b. Inr (LookupPeerResponse
                                   (if b = ''QmAnna'' then Some anna else None))),
     queryExchange = (\<lambda>c q. Source [QueryResultMsg None, QueryResultMsg (Some 0),
                                     QueryResultMsg (Some 7)] None),
     dataExchange = (\<lambda>c ks. Source (map DataResultMsg ks) None)
   \<rparr>"

definition ex_node :: node where
  "ex_node = \<lparr> p2p = \<lparr> peerInfo = self_peer, peerBook = Map.empty \<rparr>,
               directory = Some dir_peer, infoMessage = ''(aleph)'' \<rparr>"

definition failing_env :: "(nat, string, string) env" where
  "failing_env = ex_env\<lparr>dataExchange :=
     (\<lambda>c ks. Source [] (Some (TransportError ''stream failed'')))\<rparr>"

definition lone_node :: node where
  "lone_node = \<lparr> p2p = \<lparr> peerInfo = self_peer, peerBook = Map.empty \<rparr>,
                 directory = None, infoMessage = ''(aleph)'' \<rparr>"

definition connected_node :: node where
  "connected_node = \<lparr> p2p = \<lparr> peerInfo = self_peer,
                               peerBook = [''QmAnna'' \<mapsto> anna] \<rparr>,
                      directory = None, infoMessage = ''(aleph)'' \<rparr>"

section \<open>Properties of lookup\<close>



text \<open>
  C2. A node without directory binding: \<open>register\<close> rejects with the no-directory error
  and has no effect, so it dials nothing; \<open>lookup\<close> of a peer id that passes validation
  (a string the validator accepts, or a \<open>PeerId\<close> object) and has no entry in the peer
  book rejects with the no-directory error, and its only effect is the question to the
  peer book: there is no dial.
\<close>

theorem no_directory_rejects_without_dial:
  assumes "directory n = None"
  shows "register e n = (Inl NoDirectoryRegister, []) \<and>
    (\<forall>s b. fromB58String e s = Inr b \<and> peerBook (p2p n) s = None \<longrightarrow>
       lookup e n (ArgString s) = (Inl NoDirectoryLookup, [PeerBookGet s])) \<and>
    (\<forall>p. peerBook (p2p n) (toB58String p) = None \<longrightarrow>
       lookup e n (ArgPeerId p) = (Inl NoDirectoryLookup, [PeerBookGet (toB58String p)]))"
  using assms by (simp add: register_def lookup_def)

theorem no_directory_rejects_without_dial_witness:
  "directory lone_node = None \<and>
   register ex_env lone_node = (Inl NoDirectoryRegister, []) \<and>
   fromB58String ex_env ''QmAnna'' = Inr [] \<and>
   peerBook (p2p lone_node) ''QmAnna'' = None \<and>
   lookup ex_env lone_node (ArgString ''QmAnna'')
     = (Inl NoDirectoryLookup, [PeerBookGet ''QmAnna'']) \<and>
   lookup ex_env lone_node (ArgPeerId (PeerId ''QmAnna''))
     = (Inl NoDirectoryLookup, [PeerBookGet ''QmAnna''])"
proof -
  have d: "directory lone_node = None"
    by (simp add: lone_node_def)
  have v: "fromB58String ex_env ''QmAnna'' = Inr []"
    by (simp add: ex_env_def b58_alphabet_def)
  have b: "peerBook (p2p lone_node) ''QmAnna'' = None"
    by (simp add: lone_node_def)
  have b': "peerBook (p2p lone_node) (toB58String (PeerId ''QmAnna'')) = None"
    by (simp add: lone_node_def)
  from no_directory_rejects_without_dial [OF d, of ex_env] v b b'
  show ?thesis using d by simp
qed

text \<open>
  C4. A peer id with an entry in the peer book, given as a string the validator accepts
  or as a \<open>PeerId\<close> object: \<open>lookup\<close> resolves with the entry of the peer book, and its
  only effect is the question to the peer book. Nothing is dialed, with or without a
  directory binding.
\<close>

theorem lookup_peer_book_hit:
  assumes "peerBook (p2p n) b58 = Some found"
  shows "(\<forall>b. fromB58String e b58 = Inr b \<longrightarrow>
            lookup e n (ArgString b58) = (Inr (Some found), [PeerBookGet b58])) \<and>
         lookup e n (ArgPeerId (PeerId b58)) = (Inr (Some found), [PeerBookGet b58])"
  using assms by (simp add: lookup_def)

theorem lookup_peer_book_hit_witness:
  "peerBook (p2p connected_node) ''QmAnna'' = Some anna \<and>
   fromB58String ex_env ''QmAnna'' = Inr [] \<and>
   lookup ex_env connected_node (ArgString ''QmAnna'')
     = (Inr (Some anna), [PeerBookGet ''QmAnna'']) \<and>
   lookup ex_env connected_node (ArgPeerId (PeerId ''QmAnna''))
     = (Inr (Some anna), [PeerBookGet ''QmAnna''])"
proof -
  have h: "peerBook (p2p connected_node) ''QmAnna'' = Some anna"
    by (simp add: connected_node_def)
  have v: "fromB58String ex_env ''QmAnna'' = Inr []"
    by (simp add: ex_env_def b58_alphabet_def)
  from lookup_peer_book_hit [OF h, of ex_env] v h
  show ?thesis by simp
qed

text \<open>
  C6. With a directory binding, a peer id that passes validation and misses the peer
  book, a dial of the directory that succeeds and a response of the directory whose
  record is absent: \<open>lookup\<close> resolves (it does not reject) with the absent peer info.
\<close>

theorem lookup_absent_record_resolves_absent:
  assumes "directory n = Some dir"
    and "peerBook (p2p n) b58 = None"
    and "dialByPeerInfo e dir DirLookup = Inr c"
    and "lookupExchange e c b58 = Inr (LookupPeerResponse None)"
  shows "lookup e n (ArgPeerId (PeerId b58))
           = (Inr None, [PeerBookGet b58, Dial dir DirLookup]) \<and>
         (\<forall>b. fromB58String e b58 = Inr b \<longrightarrow>
            lookup e n (ArgString b58) = (Inr None, [PeerBookGet b58, Dial dir DirLookup]))"
  using assms by (simp add: lookup_def lookupResponseToPeerInfo_def)

theorem lookup_absent_record_resolves_absent_witness:
  "directory ex_node = Some dir_peer \<and>
   peerBook (p2p ex_node) ''QmBob'' = None \<and>
   dialByPeerInfo ex_env dir_peer DirLookup = Inr 1 \<and>
   lookupExchange ex_env 1 ''QmBob'' = Inr (LookupPeerResponse None) \<and>
   fromB58String ex_env ''QmBob'' = Inr [] \<and>
   lookup ex_env ex_node (ArgPeerId (PeerId ''QmBob''))
     = (Inr None, [PeerBookGet ''QmBob'', Dial dir_peer DirLookup]) \<and>
   lookup ex_env ex_node (ArgString ''QmBob'')
     = (Inr None, [PeerBookGet ''QmBob'', Dial dir_peer DirLookup])"
proof -
  have d: "directory ex_node = Some dir_peer"
    by (simp add: ex_node_def)
  have b: "peerBook (p2p ex_node) ''QmBob'' = None"
    by (simp add: ex_node_def)
  have c: "dialByPeerInfo ex_env dir_peer DirLookup = Inr 1"
    by (simp add: ex_env_def)
  have r: "lookupExchange ex_env 1 ''QmBob'' = Inr (LookupPeerResponse None)"
    by (simp add: ex_env_def)
  have v: "fromB58String ex_env ''QmBob'' = Inr []"
    by (simp add: ex_env_def b58_alphabet_def)
  from lookup_absent_record_resolves_absent [OF d b c r] d b c r v
  show ?thesis by simp
qed



section \<open>Properties of registration\<close>

text \<open>
  C1. A node with a directory binding dials the directory peer on the register protocol.
  When the dial succeeds, \<open>register\<close> resolves to \<open>true\<close> with the pipeline just
  started: the outcome is fixed before, and whatever, the time at which the connection
  closes. The pipeline repeats the registration message with the interval
  \<open>5000 * 60\<close> ms, which is 300 s, through the abortable stage into the connection:
  emission \<open>k\<close> is written at \<open>k * 300\<close> s as long as the connection is open, the first
  one at time 0, and nothing is written from the time of an abort on.
\<close>

theorem register_starts_heartbeat:
  assumes "directory n = Some dir"
    and "req = RegisterRequest (peerInfoProtoMarshal e (peerInfo (p2p n)))"
  shows "Dial dir DirRegister \<in> set (snd (register e n)) \<and>
    (\<forall>c. dialByPeerInfo e dir DirRegister = Inr c \<longrightarrow>
       register e n =
         (Inr True,
          [NewAbortable, Dial dir DirRegister,
           Pull [PullRepeatedly req (300 * 1000), Abortable,
                 ProtoStreamEncode RegisterPeer, Duplex c,
                 OnEnd ''registration connection ended'']])) \<and>
    (\<forall>closed k. heartbeat req (300 * 1000) None closed k =
       (if k * (300 * 1000) < closed then Some (k * (300 * 1000), req) else None)) \<and>
    (\<forall>closed. 0 < closed \<longrightarrow>
       heartbeat req (300 * 1000) None closed 0 = Some (0, req)) \<and>
    (\<forall>a closed k. a \<le> k * (300 * 1000) \<longrightarrow>
       heartbeat req (300 * 1000) (Some a) closed k = None)"
  using assms
  by (simp add: register_def heartbeat_def pullRepeatedly_def split: sum.splits)

theorem register_starts_heartbeat_witness:
  "directory ex_node = Some dir_peer \<and>
   dialByPeerInfo ex_env dir_peer DirRegister = Inr 1 \<and>
   register ex_env ex_node =
     (Inr True,
      [NewAbortable, Dial dir_peer DirRegister,
       Pull [PullRepeatedly (RegisterRequest ''QmSe1f'') 300000, Abortable,
             ProtoStreamEncode RegisterPeer, Duplex 1,
             OnEnd ''registration connection ended'']]) \<and>
   heartbeat (RegisterRequest ''QmSe1f'') 300000 None 700000 0
     = Some (0, RegisterRequest ''QmSe1f'') \<and>
   heartbeat (RegisterRequest ''QmSe1f'') 300000 None 700000 2
     = Some (600000, RegisterRequest ''QmSe1f'') \<and>
   heartbeat (RegisterRequest ''QmSe1f'') 300000 None 700000 3 = None \<and>
   heartbeat (RegisterRequest ''QmSe1f'') 300000 (Some 300000) 700000 1 = None"
proof -
  have d: "directory ex_node = Some dir_peer"
    by (simp add: ex_node_def)
  have c: "dialByPeerInfo ex_env dir_peer DirRegister = Inr 1"
    by (simp add: ex_env_def)
  have m: "peerInfoProtoMarshal ex_env (peerInfo (p2p ex_node)) = ''QmSe1f''"
    by (simp add: ex_env_def ex_node_def self_peer_def)
  have q: "RegisterRequest ''QmSe1f''
             = RegisterRequest (peerInfoProtoMarshal ex_env (peerInfo (p2p ex_node)))"
    by (simp add: m)
  note t = register_starts_heartbeat [OF d q]
  note r = t [THEN conjunct2, THEN conjunct1, rule_format, OF c]
  note h = t [THEN conjunct2, THEN conjunct2, THEN conjunct1, rule_format]
  note a = t [THEN conjunct2, THEN conjunct2, THEN conjunct2, THEN conjunct2, rule_format]
  have le: "(300000::nat) \<le> 1 * (300 * 1000)"
    by simp
  from h [of 700000 0] h [of 700000 2] h [of 700000 3] a [OF le, of 700000] r c d
  show ?thesis by simp
qed

section \<open>Properties of peer resolution\<close>

text \<open>
  C5. Resolution (\<open>_lookupIfNeeded\<close>) by the shape of the reference: a \<open>PeerInfo\<close> is
  returned as it is, with no effect; a string that starts with \<open>/\<close> is decoded with
  \<open>inflateMultiaddr\<close>, with no effect, and a failure of the decoding is the
  invalid-multiaddr rejection; every other string and every \<open>PeerId\<close> object is handed
  to \<open>lookup\<close>, whose outcome, an absent peer info included, is the outcome of
  resolution. \<open>openConnection\<close> turns an absent peer info into the unable-to-locate
  rejection and dials nothing then.
\<close>

theorem resolution_dispatches_on_shape:
  "lookupIfNeeded e n (RefPeerInfo i) = (Inr (Some i), []) \<and>
   (\<forall>s j. startsWith s ''/'' \<and> inflateMultiaddr e s = Inr j \<longrightarrow>
      lookupIfNeeded e n (RefString s) = (Inr (Some j), [])) \<and>
   (\<forall>s m. startsWith s ''/'' \<and> inflateMultiaddr e s = Inl m \<longrightarrow>
      lookupIfNeeded e n (RefString s) = (Inl (InvalidMultiaddr m), [])) \<and>
   (\<forall>s. \<not> startsWith s ''/'' \<longrightarrow>
      lookupIfNeeded e n (RefString s) = lookup e n (ArgString s)) \<and>
   (\<forall>pid. lookupIfNeeded e n (RefPeerId pid) = lookup e n (ArgPeerId pid)) \<and>
   (\<forall>r evs proto. lookupIfNeeded e n r = (Inr None, evs) \<longrightarrow>
      openConnection e n r proto = (Inl (UnableToLocate r), evs))"
  by (simp add: lookupIfNeeded_def openConnection_def)

theorem resolution_dispatches_on_shape_witness:
  "lookupIfNeeded ex_env ex_node (RefPeerInfo anna) = (Inr (Some anna), []) \<and>
   startsWith ''/ip4/10.0.0.7/tcp/9000'' ''/'' \<and>
   lookupIfNeeded ex_env ex_node (RefString ''/ip4/10.0.0.7/tcp/9000'')
     = (Inr (Some (PeerInfo (PeerId ''QmAddr'') [''/ip4/10.0.0.7/tcp/9000''])), []) \<and>
   startsWith ''/nowhere'' ''/'' \<and>
   lookupIfNeeded ex_env ex_node (RefString ''/nowhere'')
     = (Inl (InvalidMultiaddr ''invalid address''), []) \<and>
   \<not> startsWith ''QmBob'' ''/'' \<and>
   lookupIfNeeded ex_env ex_node (RefString ''QmBob'')
     = lookup ex_env ex_node (ArgString ''QmBob'') \<and>
   lookupIfNeeded ex_env ex_node (RefString ''QmBob'')
     = (Inr None, [PeerBookGet ''QmBob'', Dial dir_peer DirLookup]) \<and>
   openConnection ex_env ex_node (RefString ''QmBob'') NodePing
     = (Inl (UnableToLocate (RefString ''QmBob'')),
        [PeerBookGet ''QmBob'', Dial dir_peer DirLookup])"
proof -
  have a: "inflateMultiaddr ex_env ''/ip4/10.0.0.7/tcp/9000''
             = Inr (PeerInfo (PeerId ''QmAddr'') [''/ip4/10.0.0.7/tcp/9000''])"
    by (simp add: ex_env_def)
  have b: "inflateMultiaddr ex_env ''/nowhere'' = Inl ''invalid address''"
    by (simp add: ex_env_def)
  have s: "startsWith ''/ip4/10.0.0.7/tcp/9000'' ''/''" "startsWith ''/nowhere'' ''/''"
    "\<not> startsWith ''QmBob'' ''/''"
    by (simp_all add: startsWith_def)
  have l: "lookup ex_env ex_node (ArgString ''QmBob'')
             = (Inr None, [PeerBookGet ''QmBob'', Dial dir_peer DirLookup])"
    by (simp add: lookup_def ex_env_def ex_node_def b58_alphabet_def
        lookupResponseToPeerInfo_def)
  from resolution_dispatches_on_shape [of ex_env ex_node anna] a b s l
  show ?thesis by simp
qed

section \<open>Properties of query expansion\<close>

text \<open>
  Where the mapping function succeeds on every item, the stage maps the items one to
  one, in order.
\<close>

lemma mapUntilError_all_ok:
  assumes "\<forall>x\<in>set xs. \<exists>y. f x = Inr y"
  shows "\<exists>ys. mapUntilError f xs = (ys, None) \<and> length ys = length xs \<and>
           (\<forall>k<length xs. f (xs ! k) = Inr (ys ! k))"
  using assms
proof (induction xs)
  case Nil
  then show ?case by simp
next
  case (Cons x xs)
  from Cons.prems obtain y where y: "f x = Inr y"
    by auto
  from Cons obtain ys where ys: "mapUntilError f xs = (ys, None)"
    "length ys = length xs" "\<forall>k<length xs. f (xs ! k) = Inr (ys ! k)"
    by auto
  have "\<forall>k<length (x # xs). f ((x # xs) ! k) = Inr ((y # ys) ! k)"
    using y ys(3) by (auto simp: nth_Cons split: nat.splits)
  with y ys show ?case
    by simp
qed

text \<open>
  Resolution never dials the data protocol; a data fetch that succeeds has dialed it
  exactly once.
\<close>

lemma lookup_no_data_dial: "dials_on NodeData (snd (lookup e n a)) = 0"
  by (simp add: lookup_def dials_on_def split: sum.splits option.splits lookup_arg.splits)

lemma lookupIfNeeded_no_data_dial: "dials_on NodeData (snd (lookupIfNeeded e n r)) = 0"
  using lookup_no_data_dial [of e n]
  by (simp add: lookupIfNeeded_def dials_on_def split: sum.splits peer_ref.splits)

lemma openConnection_one_dial:
  assumes "openConnection e n r NodeData = (Inr c, evs)"
  shows "dials_on NodeData evs = 1"
proof -
  obtain res evs0 where l: "lookupIfNeeded e n r = (res, evs0)"
    by (cases "lookupIfNeeded e n r")
  with lookupIfNeeded_no_data_dial [of e n r] have z: "dials_on NodeData evs0 = 0"
    by simp
  from assms l obtain i where "evs = evs0 @ [Dial i NodeData]"
    by (auto simp: openConnection_def split: sum.splits option.splits)
  with z show ?thesis
    by (simp add: dials_on_def)
qed

lemma remoteData_one_dial:
  assumes "remoteData e n r keys = (Inr ds, evs)"
  shows "dials_on NodeData evs = 1"
proof -
  from assms obtain c where "openConnection e n r NodeData = (Inr c, evs)"
    by (auto simp: remoteData_def remoteDataStream_def split: prod.splits sum.splits)
  then show ?thesis
    by (rule openConnection_one_dial)
qed

text \<open>
  C7, amended. For every element of the query-result stream: an element without value
  is handed on as it is; an element whose value refers to no object id is replaced by
  that value, unchanged, without the message around it; an element whose value refers
  to object ids is replaced by \<open>expandQueryResult\<close> of the value and of the payloads
  that one \<open>remoteData\<close> call for exactly these ids returns, a call that dials the data
  protocol once. When the expansion of every element succeeds, the output has the
  length of the input, its end, and at each position the expansion of the input at that
  position.
\<close>

theorem expansion_per_element:
  "(\<forall>x. msg_value x = None \<longrightarrow> expandElement e n p x = (Inr (Message x), [])) \<and>
   (\<forall>x v. msg_value x = Some v \<and> objectIdsForQueryResult e v = [] \<longrightarrow>
      expandElement e n p x = (Inr (Object v), [])) \<and>
   (\<forall>x v ds evs. msg_value x = Some v \<and> objectIdsForQueryResult e v \<noteq> [] \<and>
       remoteData e n p (objectIdsForQueryResult e v) = (Inr ds, evs) \<longrightarrow>
      expandElement e n p x = (Inr (Object (expandQueryResult e v ds)), evs) \<and>
      dials_on NodeData evs = 1) \<and>
   (\<forall>q xs t evs. remoteQueryStream e n p q = (Inr (Source xs t), evs) \<and>
       (\<forall>x\<in>set xs. \<exists>y. fst (expandElement e n p x) = Inr y) \<longrightarrow>
      (\<exists>ys. remoteQueryWithDataStream e n p q = (Inr (Source ys t), evs) \<and>
         length ys = length xs \<and>
         (\<forall>k<length xs. fst (expandElement e n p (xs ! k)) = Inr (ys ! k))))"
proof (intro conjI allI impI)
  fix x :: "'a query_result_msg"
  assume "msg_value x = None"
  then show "expandElement e n p x = (Inr (Message x), [])"
    by (simp add: expandElement_def)
next
  fix x :: "'a query_result_msg" and v
  assume "msg_value x = Some v \<and> objectIdsForQueryResult e v = []"
  then show "expandElement e n p x = (Inr (Object v), [])"
    by (simp add: expandElement_def expandQueryResultData_def)
next
  fix x :: "'a query_result_msg" and v ds evs
  assume h: "msg_value x = Some v \<and> objectIdsForQueryResult e v \<noteq> [] \<and>
    remoteData e n p (objectIdsForQueryResult e v) = (Inr ds, evs)"
  then show "expandElement e n p x = (Inr (Object (expandQueryResult e v ds)), evs)"
    by (simp add: expandElement_def expandQueryResultData_def)
  from h show "dials_on NodeData evs = 1"
    using remoteData_one_dial by blast
next
  fix q xs t evs
  assume h: "remoteQueryStream e n p q = (Inr (Source xs t), evs) \<and>
    (\<forall>x\<in>set xs. \<exists>y. fst (expandElement e n p x) = Inr y)"
  from h mapUntilError_all_ok [of xs "\<lambda>x. fst (expandElement e n p x)"]
  obtain ys where ys: "mapUntilError (\<lambda>x. fst (expandElement e n p x)) xs = (ys, None)"
    "length ys = length xs"
    "\<forall>k<length xs. fst (expandElement e n p (xs ! k)) = Inr (ys ! k)"
    by blast
  from h ys(1) have "remoteQueryWithDataStream e n p q = (Inr (Source ys t), evs)"
    by (simp add: remoteQueryWithDataStream_def paramap_def)
  with ys show "\<exists>ys. remoteQueryWithDataStream e n p q = (Inr (Source ys t), evs) \<and>
         length ys = length xs \<and>
         (\<forall>k<length xs. fst (expandElement e n p (xs ! k)) = Inr (ys ! k))"
    by blast
qed


text \<open>The definitions that evaluate the model on the fixtures.\<close>

lemmas ex_defs = ex_env_def ex_node_def anna_def dir_peer_def
  expandElement_def expandQueryResultData_def remoteData_def remoteDataStream_def
  openConnection_def lookupIfNeeded_def pull_map_def collect_def
  remoteQueryStream_def

theorem expansion_per_element_witness:
  "expandElement ex_env ex_node (RefPeerInfo anna) (QueryResultMsg None)
     = (Inr (Message (QueryResultMsg None)), []) \<and>
   objectIdsForQueryResult ex_env 0 = [] \<and>
   expandElement ex_env ex_node (RefPeerInfo anna) (QueryResultMsg (Some 0))
     = (Inr (Object 0), []) \<and>
   objectIdsForQueryResult ex_env 7 = [''obj1'', ''obj2''] \<and>
   remoteData ex_env ex_node (RefPeerInfo anna) [''obj1'', ''obj2'']
     = (Inr [''obj1'', ''obj2''], [Dial anna NodeData]) \<and>
   expandElement ex_env ex_node (RefPeerInfo anna) (QueryResultMsg (Some 7))
     = (Inr (Object 9), [Dial anna NodeData]) \<and>
   dials_on NodeData [Dial anna NodeData :: string event] = 1 \<and>
   remoteQueryStream ex_env ex_node (RefPeerInfo anna) ''q''
     = (Inr (Source [QueryResultMsg None, QueryResultMsg (Some 0), QueryResultMsg (Some 7)]
               None),
        [Dial anna NodeQuery]) \<and>
   remoteQueryWithDataStream ex_env ex_node (RefPeerInfo anna) ''q''
     = (Inr (Source [Message (QueryResultMsg None), Object 0, Object 9] None),
        [Dial anna NodeQuery])"
proof -
  note t = expansion_per_element [of ex_env ex_node "RefPeerInfo anna"]
  note t1 = t [THEN conjunct1, rule_format]
  note t2 = t [THEN conjunct2, THEN conjunct1, rule_format]
  note t3 = t [THEN conjunct2, THEN conjunct2, THEN conjunct1, rule_format]
  note t4 = t [THEN conjunct2, THEN conjunct2, THEN conjunct2, rule_format]
  have ids0: "objectIdsForQueryResult ex_env 0 = []"
    by (simp add: ex_env_def)
  have ids7: "objectIdsForQueryResult ex_env 7 = [''obj1'', ''obj2'']"
    by (simp add: ex_env_def)
  have rd: "remoteData ex_env ex_node (RefPeerInfo anna) [''obj1'', ''obj2'']
      = (Inr [''obj1'', ''obj2''], [Dial anna NodeData])"
    by (simp add: ex_defs)
  have ex7: "expandQueryResult ex_env 7 [''obj1'', ''obj2''] = 9"
    by (simp add: ex_env_def)
  have a: "expandElement ex_env ex_node (RefPeerInfo anna) (QueryResultMsg None)
      = (Inr (Message (QueryResultMsg None)), [])"
    by (rule t1) simp
  have b: "expandElement ex_env ex_node (RefPeerInfo anna) (QueryResultMsg (Some 0))
      = (Inr (Object 0), [])"
    by (rule t2) (simp add: ids0)
  have "msg_value (QueryResultMsg (Some 7)) = Some (7::nat) \<and>
      objectIdsForQueryResult ex_env 7 \<noteq> [] \<and>
      remoteData ex_env ex_node (RefPeerInfo anna) (objectIdsForQueryResult ex_env 7)
        = (Inr [''obj1'', ''obj2''], [Dial anna NodeData])"
    by (simp add: ids7 rd)
  from t3 [OF this] ex7
  have c: "expandElement ex_env ex_node (RefPeerInfo anna) (QueryResultMsg (Some 7))
      = (Inr (Object 9), [Dial anna NodeData])"
    and d: "dials_on NodeData [Dial anna NodeData :: string event] = 1"
    by simp_all
  have qs: "remoteQueryStream ex_env ex_node (RefPeerInfo anna) ''q''
      = (Inr (Source [QueryResultMsg None, QueryResultMsg (Some 0), QueryResultMsg (Some 7)]
                None),
         [Dial anna NodeQuery])"
    by (simp add: ex_defs)
  have "remoteQueryStream ex_env ex_node (RefPeerInfo anna) ''q''
      = (Inr (Source [QueryResultMsg None, QueryResultMsg (Some 0), QueryResultMsg (Some 7)]
                None),
         [Dial anna NodeQuery]) \<and>
    (\<forall>x\<in>set [QueryResultMsg None, QueryResultMsg (Some 0), QueryResultMsg (Some 7)].
       \<exists>y. fst (expandElement ex_env ex_node (RefPeerInfo anna) x) = Inr y)"
    by (simp add: qs a b c)
  from t4 [OF this] obtain ys where
    r: "remoteQueryWithDataStream ex_env ex_node (RefPeerInfo anna) ''q''
          = (Inr (Source ys None), [Dial anna NodeQuery])"
    and l: "length ys = 3"
    and k: "\<And>k. k < 3 \<Longrightarrow>
          fst (expandElement ex_env ex_node (RefPeerInfo anna)
                ([QueryResultMsg None, QueryResultMsg (Some 0), QueryResultMsg (Some 7)] ! k))
            = Inr (ys ! k)"
    by auto
  from l obtain y0 y1 y2 where ys: "ys = [y0, y1, y2]"
    by (auto simp: numeral_3_eq_3 length_Suc_conv)
  from k [of 0] k [of 1] k [of 2] a b c ys
  have "ys = [Message (QueryResultMsg None), Object 0, Object 9]"
    by simp
  with r a b c d ids0 ids7 rd qs show ?thesis
    by simp
qed

text \<open>
  C7 as stated fails twice. The element \<open>{value: 0}\<close> refers to no object id, and
  the stage delivers the value \<open>0\<close> in its place, not the element. And where the data
  fetch of the third element fails, the output has two items and then the error, for
  an input of three.
\<close>

theorem expansion_identity_counterexample:
  "objectIdsForQueryResult ex_env 0 = [] \<and>
   fst (expandElement ex_env ex_node (RefPeerInfo anna) (QueryResultMsg (Some 0)))
     = Inr (Object 0) \<and>
   Object 0 \<noteq> Message (QueryResultMsg (Some (0::nat))) \<and>
   remoteQueryStream failing_env ex_node (RefPeerInfo anna) ''q''
     = (Inr (Source [QueryResultMsg None, QueryResultMsg (Some 0), QueryResultMsg (Some 7)]
               None),
        [Dial anna NodeQuery]) \<and>
   remoteQueryWithDataStream failing_env ex_node (RefPeerInfo anna) ''q''
     = (Inr (Source [Message (QueryResultMsg None), Object 0]
               (Some (TransportError ''stream failed''))),
        [Dial anna NodeQuery]) \<and>
   length [Message (QueryResultMsg None), Object (0::nat)]
     \<noteq> length [QueryResultMsg None, QueryResultMsg (Some (0::nat)), QueryResultMsg (Some 7)]"
  by (simp add: failing_env_def ex_defs remoteQueryWithDataStream_def paramap_def)

end
